theory Spec2Isabelle
  imports Complex_Main "HOL-Library.Sublist"
begin

section \<open>Values and exceptions\<close>

text \<open>
  The values that cross the wire and that \<open>json.loads\<close> produces. A Python dict is
  given by the list of its items in insertion order (its keys are distinct); a lookup
  is \<open>map_of\<close>. Numbers are rationals: Python's \<open>int\<close> and \<open>float\<close> are not told
  apart and rounding is not modelled.
\<close>

datatype json =
    JNull
  | JBool bool
  | JNum rat
  | JStr string
  | JArr "json list"
  | JObj "(string \<times> json) list"

text \<open>
  A raised exception: its class and the text \<open>str(exc)\<close>. For exceptions that the
  interpreter raises the text is shortened; the texts of the \<open>raise\<close> statements of
  the source are kept up to the formatted values.
\<close>

datatype exn_class =
  KeyError | ValueError | TypeError | AttributeError | RuntimeError | AssertionError | OtherError

datatype exn = Exn exn_class string

fun exn_str :: "exn \<Rightarrow> string" where
  "exn_str (Exn c m) = m"

definition no_attribute :: "string \<Rightarrow> exn" where
  "no_attribute a = Exn AttributeError (''object has no attribute '' @ a)"

text \<open>Truth value of a value, as \<open>if v:\<close> and \<open>a or b\<close> test it.\<close>

fun truthy :: "json \<Rightarrow> bool" where
  "truthy JNull = False"
| "truthy (JBool b) = b"
| "truthy (JNum r) = (r \<noteq> 0)"
| "truthy (JStr s) = (s \<noteq> [])"
| "truthy (JArr xs) = (xs \<noteq> [])"
| "truthy (JObj kv) = (kv \<noteq> [])"

definition py_or :: "json \<Rightarrow> json \<Rightarrow> json" where
  "py_or a b = (if truthy a then a else b)"

text \<open>\<open>d.get(k)\<close>, \<open>d.get(k, default)\<close> and \<open>k in d\<close> on a dict.\<close>

definition dict_get :: "(string \<times> json) list \<Rightarrow> string \<Rightarrow> json" where
  "dict_get kv k = (case map_of kv k of None \<Rightarrow> JNull | Some v \<Rightarrow> v)"

definition dict_get_default :: "(string \<times> json) list \<Rightarrow> string \<Rightarrow> json \<Rightarrow> json" where
  "dict_get_default kv k d = (case map_of kv k of None \<Rightarrow> d | Some v \<Rightarrow> v)"

definition has_key :: "(string \<times> json) list \<Rightarrow> string \<Rightarrow> bool" where
  "has_key kv k = (map_of kv k \<noteq> None)"

text \<open>\<open>v.get(k, default)\<close> on any value: only a dict has the method.\<close>

fun method_get :: "json \<Rightarrow> string \<Rightarrow> json \<Rightarrow> exn + json" where
  "method_get (JObj kv) k d = Inr (dict_get_default kv k d)"
| "method_get v k d = Inl (no_attribute ''get'')"

subsection \<open>Strings\<close>

text \<open>
  \<open>str.lower()\<close> on the ASCII letters (other characters are left as they are), and
  the substring test \<open>needle in haystack\<close>.
\<close>

definition is_upper :: "char \<Rightarrow> bool" where
  "is_upper c = (let n = (of_char c :: nat) in 65 \<le> n \<and> n \<le> 90)"

fun lower_char :: "char \<Rightarrow> char" where
  "lower_char (Char b0 b1 b2 b3 b4 b5 b6 b7) =
     (if is_upper (Char b0 b1 b2 b3 b4 b5 b6 b7) then Char b0 b1 b2 b3 b4 True b6 b7
      else Char b0 b1 b2 b3 b4 b5 b6 b7)"

definition lower :: "string \<Rightarrow> string" where
  "lower s = map lower_char s"

fun contains :: "string \<Rightarrow> string \<Rightarrow> bool" where
  "contains needle [] = (needle = [])"
| "contains needle (c # cs) = (prefix needle (c # cs) \<or> contains needle cs)"

text \<open>\<open>v.lower()\<close> on any value: only a string has the method.\<close>

fun method_lower :: "json \<Rightarrow> exn + string" where
  "method_lower (JStr s) = Inr (lower s)"
| "method_lower v = Inl (no_attribute ''lower'')"

text \<open>
  The builtins whose result the model does not compute: \<open>float(s)\<close> on a string
  (\<open>None\<close>: ValueError), \<open>str(v)\<close> on a value that is not a string, \<open>repr(v)\<close>, the
  format \<open>.0f\<close> of a number, and \<open>json.loads\<close> (\<open>None\<close>: JSONDecodeError).
\<close>

record builtins =
  float_of_str :: "string \<Rightarrow> rat option"
  str_of_value :: "json \<Rightarrow> string"
  repr_of_value :: "json \<Rightarrow> string"
  format_0f :: "rat \<Rightarrow> string"
  json_loads :: "string \<Rightarrow> json option"

fun py_float :: "builtins \<Rightarrow> json \<Rightarrow> exn + rat" where
  "py_float py (JNum r) = Inr r"
| "py_float py (JBool b) = Inr (if b then 1 else 0)"
| "py_float py (JStr s) =
     (case float_of_str py s of
        Some r \<Rightarrow> Inr r
      | None \<Rightarrow> Inl (Exn ValueError ''could not convert string to float''))"
| "py_float py v = Inl (Exn TypeError ''float() argument must be a string or a real number'')"

fun py_str :: "builtins \<Rightarrow> json \<Rightarrow> string" where
  "py_str py (JStr s) = s"
| "py_str py v = str_of_value py v"

section \<open>Element model (xcuitest.py)\<close>

text \<open>
  The dataclass \<open>UIElement\<close>. Its fields \<open>label\<close>, \<open>identifier\<close> (here \<open>el_identifier\<close>) and
  \<open>element_type\<close> are annotated \<open>str\<close>, but \<open>_parse_elements\<close> stores what the tree
  holds, so they are values here; \<open>value\<close> goes through \<open>str()\<close> and \<open>frame\<close> through
  \<open>_normalize_frame\<close>, whose dict of four floats is the list of its items.
\<close>

record UIElement =
  label :: json
  el_identifier :: json
  element_type :: json
  frame :: "(string \<times> rat) list"
  el_value :: string

subsection \<open>\<open>_normalize_frame\<close>\<close>

text \<open>\<open>float(d.get(k, 0))\<close> for a value \<open>d\<close> that should be a dict.\<close>

definition float_field :: "builtins \<Rightarrow> json \<Rightarrow> string \<Rightarrow> exn + rat" where
  "float_field py d k =
     (case method_get d k (JNum 0) of Inl e \<Rightarrow> Inl e | Inr v \<Rightarrow> py_float py v)"

text \<open>The dict literal with the four keys; its values are evaluated left to right.\<close>

definition four_floats ::
  "builtins \<Rightarrow> json \<Rightarrow> json \<Rightarrow> exn + (string \<times> rat) list" where
  "four_floats py pos ext =
     (case float_field py pos ''x'' of Inl e \<Rightarrow> Inl e | Inr x \<Rightarrow>
      (case float_field py pos ''y'' of Inl e \<Rightarrow> Inl e | Inr y \<Rightarrow>
       (case float_field py ext ''width'' of Inl e \<Rightarrow> Inl e | Inr w \<Rightarrow>
        (case float_field py ext ''height'' of Inl e \<Rightarrow> Inl e | Inr h \<Rightarrow>
           Inr [(''x'', x), (''y'', y), (''width'', w), (''height'', h)]))))"

text \<open>
  \<open>"x" in frame\<close> is a key test on a dict; on a string or a list it is a membership
  test, after which \<open>frame.get\<close> raises AttributeError on either branch; on any other
  value the test itself raises TypeError.
\<close>

fun normalize_frame :: "builtins \<Rightarrow> json \<Rightarrow> exn + (string \<times> rat) list" where
  "normalize_frame py (JObj kv) =
     (if has_key kv ''x'' then four_floats py (JObj kv) (JObj kv)
      else four_floats py (dict_get_default kv ''origin'' (JObj []))
                          (dict_get_default kv ''size'' (JObj [])))"
| "normalize_frame py (JStr s) = Inl (no_attribute ''get'')"
| "normalize_frame py (JArr xs) = Inl (no_attribute ''get'')"
| "normalize_frame py v = Inl (Exn TypeError ''argument is not iterable'')"

subsection \<open>\<open>_parse_elements\<close>\<close>

text \<open>
  The body of the \<open>dict\<close> branch before the recursion: the node's own element is
  appended to the shared list \<open>elements\<close> when it has a frame and a label or an
  identifier.
\<close>

definition own_element ::
  "builtins \<Rightarrow> (string \<times> json) list \<Rightarrow> UIElement list \<Rightarrow> exn + UIElement list" where
  "own_element py data elements =
     (let fr = py_or (dict_get data ''frame'') (dict_get data ''rect'') in
      if truthy fr then
        (let lbl = py_or (py_or (dict_get data ''label'') (dict_get data ''accessibilityLabel''))
                         (JStr []);
             ident = py_or (py_or (dict_get data ''identifier'')
                                  (dict_get data ''accessibilityIdentifier'')) (JStr []);
             etype = py_or (py_or (dict_get data ''elementType'') (dict_get data ''type''))
                           (JStr ''Unknown'');
             v = py_or (dict_get data ''value'') (JStr [])
         in if truthy lbl \<or> truthy ident then
              (case normalize_frame py fr of
                 Inl e \<Rightarrow> Inl e
               | Inr nf \<Rightarrow>
                   Inr (elements @ [\<lparr>label = lbl, el_identifier = ident, element_type = etype,
                                     frame = nf, el_value = py_str py v\<rparr>]))
            else Inr elements)
      else Inr elements)"

text \<open>
  The recursive walk. \<open>parse_items\<close> is the loop over a list, \<open>parse_child key\<close> is
  \<open>if key in data: _parse_elements(data[key], elements)\<close>, written as a search of the
  dict's items so that the recursion is structural. An exception leaves through every
  level.
\<close>

fun parse_elements :: "builtins \<Rightarrow> json \<Rightarrow> UIElement list \<Rightarrow> exn + UIElement list"
  and parse_items :: "builtins \<Rightarrow> json list \<Rightarrow> UIElement list \<Rightarrow> exn + UIElement list"
  and parse_child ::
    "builtins \<Rightarrow> string \<Rightarrow> (string \<times> json) list \<Rightarrow> UIElement list \<Rightarrow> exn + UIElement list"
where
  "parse_elements py (JArr items) elements = parse_items py items elements"
| "parse_elements py (JObj data) elements =
     (case own_element py data elements of Inl e \<Rightarrow> Inl e | Inr els1 \<Rightarrow>
      (case parse_child py ''children'' data els1 of Inl e \<Rightarrow> Inl e | Inr els2 \<Rightarrow>
       (case parse_child py ''elements'' data els2 of Inl e \<Rightarrow> Inl e | Inr els3 \<Rightarrow>
          parse_child py ''subtree'' data els3)))"
| "parse_elements py JNull elements = Inr elements"
| "parse_elements py (JBool b) elements = Inr elements"
| "parse_elements py (JNum r) elements = Inr elements"
| "parse_elements py (JStr s) elements = Inr elements"
| "parse_items py [] elements = Inr elements"
| "parse_items py (item # items) elements =
     (case parse_elements py item elements of
        Inl e \<Rightarrow> Inl e
      | Inr els1 \<Rightarrow> parse_items py items els1)"
| "parse_child py key [] elements = Inr elements"
| "parse_child py key ((k, v) # kvs) elements =
     (if k = key then parse_elements py v elements else parse_child py key kvs elements)"

subsection \<open>\<open>find_element\<close>\<close>

text \<open>
  A criterion is \<open>Optional[str]\<close>; \<open>if label:\<close> takes it into account when it is
  given and not the empty string.
\<close>

definition provided :: "string option \<Rightarrow> bool" where
  "provided c = (case c of None \<Rightarrow> False | Some s \<Rightarrow> s \<noteq> [])"

text \<open>
  The three tests of the loop body; \<open>False\<close> is the \<open>continue\<close>. In the fuzzy test
  \<open>label.lower()\<close> is evaluated before \<open>el.label.lower()\<close>.
\<close>

definition label_test :: "string option \<Rightarrow> bool \<Rightarrow> UIElement \<Rightarrow> exn + bool" where
  "label_test lbl fuzzy el =
     (case lbl of
        None \<Rightarrow> Inr True
      | Some l \<Rightarrow>
          if l = [] then Inr True
          else if fuzzy then
            (case method_lower (label el) of
               Inl e \<Rightarrow> Inl e
             | Inr hay \<Rightarrow> Inr (contains (lower l) hay))
          else Inr (label el = JStr l))"

definition identifier_test :: "string option \<Rightarrow> UIElement \<Rightarrow> bool" where
  "identifier_test ident el =
     (case ident of
        None \<Rightarrow> True
      | Some i \<Rightarrow> if i = [] then True else el_identifier el = JStr i)"

definition type_test :: "string option \<Rightarrow> UIElement \<Rightarrow> exn + bool" where
  "type_test etype el =
     (case etype of
        None \<Rightarrow> Inr True
      | Some t \<Rightarrow>
          if t = [] then Inr True
          else
            (case method_lower (element_type el) of
               Inl e \<Rightarrow> Inl e
             | Inr lt \<Rightarrow> Inr (lt = lower t)))"

text \<open>The loop \<open>for el in elements\<close> of \<open>find_element\<close>, on the list of elements.\<close>

fun find_in ::
  "string option \<Rightarrow> string option \<Rightarrow> string option \<Rightarrow> bool \<Rightarrow> UIElement list
     \<Rightarrow> exn + UIElement option" where
  "find_in lbl ident etype fuzzy [] = Inr None"
| "find_in lbl ident etype fuzzy (el # rest) =
     (case label_test lbl fuzzy el of
        Inl e \<Rightarrow> Inl e
      | Inr lok \<Rightarrow>
          if \<not> lok then find_in lbl ident etype fuzzy rest
          else if \<not> identifier_test ident el then find_in lbl ident etype fuzzy rest
          else
            (case type_test etype el of
               Inl e \<Rightarrow> Inl e
             | Inr tok \<Rightarrow>
                 if \<not> tok then find_in lbl ident etype fuzzy rest
                 else Inr (Some el)))"

section \<open>The element model as the specification words it\<close>







text \<open>A button to evaluate the lookup on.\<close>

definition ok_button :: UIElement where
  "ok_button = \<lparr>label = JStr ''OK'', el_identifier = JStr ''ok_btn'', element_type = JStr ''Button'',
     frame = [(''x'', 10), (''y'', 20), (''width'', 80), (''height'', 40)], el_value = ''''\<rparr>"









text \<open>
  The nodes of a tree in depth-first order: a node comes before its descendants, the
  items of a list in list order, the children of a node under \<open>children\<close>, then under
  \<open>elements\<close>, then under \<open>subtree\<close>.
\<close>

fun nodes :: "json \<Rightarrow> (string \<times> json) list list"
  and nodes_of_items :: "json list \<Rightarrow> (string \<times> json) list list"
  and nodes_under :: "string \<Rightarrow> (string \<times> json) list \<Rightarrow> (string \<times> json) list list"
where
  "nodes (JArr items) = nodes_of_items items"
| "nodes (JObj kv) =
     kv # nodes_under ''children'' kv @ nodes_under ''elements'' kv @ nodes_under ''subtree'' kv"
| "nodes JNull = []"
| "nodes (JBool b) = []"
| "nodes (JNum r) = []"
| "nodes (JStr s) = []"
| "nodes_of_items [] = []"
| "nodes_of_items (item # items) = nodes item @ nodes_of_items items"
| "nodes_under key [] = []"
| "nodes_under key ((k, v) # kvs) = (if k = key then nodes v else nodes_under key kvs)"





text \<open>
  A tree that mixes both frame shapes, all three child keys' lookups and a node without
  a frame; and builtins that are never called on it.
\<close>

definition no_builtins :: builtins where
  "no_builtins =
     \<lparr>float_of_str = (\<lambda>s. None), str_of_value = (\<lambda>v. []), repr_of_value = (\<lambda>v. []),
      format_0f = (\<lambda>r. []), json_loads = (\<lambda>s. None)\<rparr>"


section \<open>Script engine (xcuitest.py)\<close>

text \<open>The dataclasses \<open>StepResult\<close> and \<open>ScriptResult\<close>, with the property \<open>passed\<close>.\<close>

record StepResult =
  action :: string
  success :: bool
  screenshot_path :: "string option"
  error :: "string option"
  detail :: string

record ScriptResult =
  script_name :: string
  steps :: "StepResult list"

definition passed :: "ScriptResult \<Rightarrow> bool" where
  "passed r = list_all success (steps r)"

text \<open>
  The functions that \<open>run_script\<close> calls and that act on the simulator: each takes the
  state of the world and returns what it returns or raises, with the new state. Their
  arguments are the values the step holds; \<open>udid\<close> is \<open>Optional[str]\<close>. Nothing is
  assumed about them, so what is proved of the engine holds whatever they do.
\<close>

record 'w callees =
  get_booted :: "'w \<Rightarrow> (exn + string option) \<times> 'w"
  tap_element :: "'w \<Rightarrow> json \<Rightarrow> json \<Rightarrow> string option \<Rightarrow> json \<Rightarrow> (exn + UIElement) \<times> 'w"
  tap_xy :: "'w \<Rightarrow> json \<Rightarrow> json \<Rightarrow> string option \<Rightarrow> (exn + unit) \<times> 'w"
  swipe :: "'w \<Rightarrow> json \<Rightarrow> json \<Rightarrow> string option \<Rightarrow> json \<Rightarrow> json \<Rightarrow> json \<Rightarrow> (exn + unit) \<times> 'w"
  type_text :: "'w \<Rightarrow> json \<Rightarrow> string option \<Rightarrow> (exn + unit) \<times> 'w"
  wait :: "'w \<Rightarrow> json \<Rightarrow> (exn + unit) \<times> 'w"
  capture_step_screenshot :: "'w \<Rightarrow> json \<Rightarrow> string \<Rightarrow> string option \<Rightarrow> (exn + string) \<times> 'w"
  describe_screen :: "'w \<Rightarrow> string option \<Rightarrow> (exn + UIElement list) \<times> 'w"

text \<open>
  \<open>step[key]\<close> and \<open>frame[key]\<close> raise KeyError, whose text is the key in quotes; the
  properties \<open>center_x\<close> and \<open>center_y\<close> read the frame.
\<close>

definition quoted :: "string \<Rightarrow> string" where
  "quoted s = CHR 0x27 # s @ [CHR 0x27]"

definition step_item :: "(string \<times> json) list \<Rightarrow> string \<Rightarrow> exn + json" where
  "step_item step k = (case map_of step k of None \<Rightarrow> Inl (Exn KeyError (quoted k)) | Some v \<Rightarrow> Inr v)"

definition frame_item :: "(string \<times> rat) list \<Rightarrow> string \<Rightarrow> exn + rat" where
  "frame_item fr k = (case map_of fr k of None \<Rightarrow> Inl (Exn KeyError (quoted k)) | Some v \<Rightarrow> Inr v)"

definition center :: "UIElement \<Rightarrow> string \<Rightarrow> string \<Rightarrow> exn + rat" where
  "center el pos ext =
     (case frame_item (frame el) pos of Inl e \<Rightarrow> Inl e | Inr p \<Rightarrow>
      (case frame_item (frame el) ext of Inl e \<Rightarrow> Inl e | Inr d \<Rightarrow> Inr (p + d / 2)))"

definition center_x :: "UIElement \<Rightarrow> exn + rat" where
  "center_x el = center el ''x'' ''width''"

definition center_y :: "UIElement \<Rightarrow> exn + rat" where
  "center_y el = center el ''y'' ''height''"

text \<open>The format \<open>{v:.0f}\<close> of a value, and the details of the tap actions.\<close>

fun format_value_0f :: "builtins \<Rightarrow> json \<Rightarrow> exn + string" where
  "format_value_0f py (JNum r) = Inr (format_0f py r)"
| "format_value_0f py (JBool b) = Inr (format_0f py (if b then 1 else 0))"
| "format_value_0f py (JStr s) = Inl (Exn ValueError ''Unknown format code f for object of type str'')"
| "format_value_0f py v = Inl (Exn TypeError ''unsupported format string'')"

definition at_center :: "builtins \<Rightarrow> UIElement \<Rightarrow> exn + string" where
  "at_center py el =
     (case center_x el of Inl e \<Rightarrow> Inl e | Inr cx \<Rightarrow>
      (case center_y el of Inl e \<Rightarrow> Inl e | Inr cy \<Rightarrow>
         Inr ('' at ('' @ format_0f py cx @ '', '' @ format_0f py cy @ '')'')))"

definition tap_detail :: "builtins \<Rightarrow> string \<Rightarrow> json \<Rightarrow> UIElement \<Rightarrow> exn + string" where
  "tap_detail py lead shown el =
     (case at_center py el of
        Inl e \<Rightarrow> Inl e
      | Inr place \<Rightarrow> Inr (lead @ quoted (py_str py shown) @ place))"

text \<open>
  The test of \<open>assert_text\<close>: the labels are lowered first, for every element; then
  \<open>any(expected.lower() in t for t in labels + values)\<close> evaluates \<open>expected.lower()\<close>
  only when there is a text to look at.
\<close>

fun lowered :: "json list \<Rightarrow> exn + string list" where
  "lowered [] = Inr []"
| "lowered (v # vs) =
     (case method_lower v of Inl e \<Rightarrow> Inl e | Inr s \<Rightarrow>
      (case lowered vs of Inl e \<Rightarrow> Inl e | Inr ss \<Rightarrow> Inr (s # ss)))"

definition text_on_screen :: "json \<Rightarrow> UIElement list \<Rightarrow> exn + bool" where
  "text_on_screen expected els =
     (case lowered (map label els) of
        Inl e \<Rightarrow> Inl e
      | Inr labels \<Rightarrow>
          (let texts = labels @ map (\<lambda>el. lower (el_value el)) els in
           if texts = [] then Inr False
           else (case method_lower expected of
                   Inl e \<Rightarrow> Inl e
                 | Inr needle \<Rightarrow> Inr (list_ex (contains needle) texts))))"

text \<open>
  The branches of the \<open>try\<close> body, one per action: the detail and the screenshot path
  they set, or the exception that leaves them.
\<close>

type_synonym 'w outcome = "(exn + string \<times> string option) \<times> 'w"

definition do_tap_label ::
  "'w callees \<Rightarrow> builtins \<Rightarrow> string option \<Rightarrow> (string \<times> json) list \<Rightarrow> 'w \<Rightarrow> 'w outcome" where
  "do_tap_label env py udid step w =
     (case step_item step ''label'' of
        Inl e \<Rightarrow> (Inl e, w)
      | Inr lbl \<Rightarrow>
          (case tap_element env w lbl JNull udid (dict_get_default step ''fuzzy'' (JBool True)) of
             (Inl e, w1) \<Rightarrow> (Inl e, w1)
           | (Inr el, w1) \<Rightarrow>
               (case tap_detail py ''Tapped '' (label el) el of
                  Inl e \<Rightarrow> (Inl e, w1)
                | Inr d \<Rightarrow> (Inr (d, None), w1))))"

definition do_tap_id ::
  "'w callees \<Rightarrow> builtins \<Rightarrow> string option \<Rightarrow> (string \<times> json) list \<Rightarrow> 'w \<Rightarrow> 'w outcome" where
  "do_tap_id env py udid step w =
     (case step_item step ''identifier'' of
        Inl e \<Rightarrow> (Inl e, w)
      | Inr ident \<Rightarrow>
          (case tap_element env w JNull ident udid (JBool True) of
             (Inl e, w1) \<Rightarrow> (Inl e, w1)
           | (Inr el, w1) \<Rightarrow>
               (case tap_detail py ''Tapped id='' (el_identifier el) el of
                  Inl e \<Rightarrow> (Inl e, w1)
                | Inr d \<Rightarrow> (Inr (d, None), w1))))"

definition do_tap_xy ::
  "'w callees \<Rightarrow> builtins \<Rightarrow> string option \<Rightarrow> (string \<times> json) list \<Rightarrow> 'w \<Rightarrow> 'w outcome" where
  "do_tap_xy env py udid step w =
     (case step_item step ''x'' of
        Inl e \<Rightarrow> (Inl e, w)
      | Inr x \<Rightarrow>
          (case step_item step ''y'' of
             Inl e \<Rightarrow> (Inl e, w)
           | Inr y \<Rightarrow>
               (case tap_xy env w x y udid of
                  (Inl e, w1) \<Rightarrow> (Inl e, w1)
                | (Inr u, w1) \<Rightarrow>
                    (Inr (''Tapped ('' @ py_str py x @ '', '' @ py_str py y @ '')'', None), w1))))"

definition do_swipe ::
  "'w callees \<Rightarrow> builtins \<Rightarrow> string option \<Rightarrow> (string \<times> json) list \<Rightarrow> 'w \<Rightarrow> 'w outcome" where
  "do_swipe env py udid step w =
     (case step_item step ''direction'' of
        Inl e \<Rightarrow> (Inl e, w)
      | Inr dir \<Rightarrow>
          (case swipe env w dir (dict_get_default step ''distance'' (JNum 300)) udid
                  (dict_get_default step ''duration'' (JNum (1 / 2)))
                  (dict_get step ''start_x'') (dict_get step ''start_y'') of
             (Inl e, w1) \<Rightarrow> (Inl e, w1)
           | (Inr u, w1) \<Rightarrow>
               (case format_value_0f py (dict_get_default step ''distance'' (JNum 300)) of
                  Inl e \<Rightarrow> (Inl e, w1)
                | Inr pts \<Rightarrow>
                    (Inr (''Swiped '' @ py_str py dir @ '' '' @ pts @ ''pt'', None), w1))))"

definition do_type ::
  "'w callees \<Rightarrow> builtins \<Rightarrow> string option \<Rightarrow> (string \<times> json) list \<Rightarrow> 'w \<Rightarrow> 'w outcome" where
  "do_type env py udid step w =
     (case step_item step ''text'' of
        Inl e \<Rightarrow> (Inl e, w)
      | Inr txt \<Rightarrow>
          (case type_text env w txt udid of
             (Inl e, w1) \<Rightarrow> (Inl e, w1)
           | (Inr u, w1) \<Rightarrow> (Inr (''Typed: '' @ repr_of_value py txt, None), w1)))"

definition do_wait ::
  "'w callees \<Rightarrow> builtins \<Rightarrow> (string \<times> json) list \<Rightarrow> 'w \<Rightarrow> 'w outcome" where
  "do_wait env py step w =
     (let secs = dict_get_default step ''seconds'' (JNum 1) in
      case wait env w secs of
        (Inl e, w1) \<Rightarrow> (Inl e, w1)
      | (Inr u, w1) \<Rightarrow> (Inr (''Waited '' @ py_str py secs @ ''s'', None), w1))"

definition do_screenshot ::
  "'w callees \<Rightarrow> string \<Rightarrow> string option \<Rightarrow> json \<Rightarrow> (string \<times> json) list \<Rightarrow> 'w
     \<Rightarrow> 'w outcome" where
  "do_screenshot env output_dir udid name step w =
     (let snap_name = dict_get_default step ''name'' name in
      case capture_step_screenshot env w snap_name output_dir udid of
        (Inl e, w1) \<Rightarrow> (Inl e, w1)
      | (Inr path, w1) \<Rightarrow> (Inr (''Screenshot: '' @ path, Some path), w1))"

definition do_assert_text ::
  "'w callees \<Rightarrow> builtins \<Rightarrow> string option \<Rightarrow> (string \<times> json) list \<Rightarrow> 'w \<Rightarrow> 'w outcome" where
  "do_assert_text env py udid step w =
     (case step_item step ''text'' of
        Inl e \<Rightarrow> (Inl e, w)
      | Inr expected \<Rightarrow>
          (case describe_screen env w udid of
             (Inl e, w1) \<Rightarrow> (Inl e, w1)
           | (Inr els, w1) \<Rightarrow>
               (case text_on_screen expected els of
                  Inl e \<Rightarrow> (Inl e, w1)
                | Inr found \<Rightarrow>
                    if \<not> found then
                      (Inl (Exn AssertionError
                              (''Text not found on screen: '' @ repr_of_value py expected)), w1)
                    else (Inr (''Found text: '' @ repr_of_value py expected, None), w1))))"

text \<open>The \<open>if/elif\<close> chain on the action.\<close>

definition perform ::
  "'w callees \<Rightarrow> builtins \<Rightarrow> string \<Rightarrow> string option \<Rightarrow> json \<Rightarrow> json
     \<Rightarrow> (string \<times> json) list \<Rightarrow> 'w \<Rightarrow> 'w outcome" where
  "perform env py output_dir udid act name step w =
     (if act = JStr ''tap_label'' then do_tap_label env py udid step w
      else if act = JStr ''tap_id'' then do_tap_id env py udid step w
      else if act = JStr ''tap_xy'' then do_tap_xy env py udid step w
      else if act = JStr ''swipe'' then do_swipe env py udid step w
      else if act = JStr ''type'' then do_type env py udid step w
      else if act = JStr ''wait'' then do_wait env py step w
      else if act = JStr ''screenshot'' then do_screenshot env output_dir udid name step w
      else if act = JStr ''assert_text'' then do_assert_text env py udid step w
      else (Inl (Exn ValueError (''Unknown action: '' @ repr_of_value py act)), w))"

text \<open>
  One turn of the loop: the step's result with the two \<open>try\<close> blocks around the
  screenshots, whose exceptions are dropped.
\<close>

definition step_number :: "builtins \<Rightarrow> nat \<Rightarrow> string" where
  "step_number py i = py_str py (JNum (of_nat (i + 1)))"

definition step_action :: "(string \<times> json) list \<Rightarrow> json" where
  "step_action step = dict_get_default step ''action'' (JStr ''unknown'')"

definition step_label :: "builtins \<Rightarrow> nat \<Rightarrow> (string \<times> json) list \<Rightarrow> json" where
  "step_label py i step =
     py_or (dict_get step ''name'')
           (JStr (''step_'' @ step_number py i @ ''_'' @ py_str py (step_action step)))"

definition new_result :: "builtins \<Rightarrow> nat \<Rightarrow> (string \<times> json) list \<Rightarrow> StepResult" where
  "new_result py i step =
     \<lparr>action = step_number py i @ ''. '' @ py_str py (step_action step), success = False,
      screenshot_path = None, error = None, detail = []\<rparr>"

definition run_step ::
  "'w callees \<Rightarrow> builtins \<Rightarrow> string \<Rightarrow> string option \<Rightarrow> bool \<Rightarrow> nat
     \<Rightarrow> (string \<times> json) list \<Rightarrow> 'w \<Rightarrow> StepResult \<times> 'w" where
  "run_step env py output_dir udid screenshot_every_step i step w =
     (let act = step_action step;
          name = step_label py i step;
          step_result = new_result py i step
      in case perform env py output_dir udid act name step w of
           (Inr (d, path), w1) \<Rightarrow>
             if screenshot_every_step \<and> act \<noteq> JStr ''screenshot'' then
               (case capture_step_screenshot env w1 name output_dir udid of
                  (Inr shot, w2) \<Rightarrow>
                    (step_result\<lparr>detail := d, success := True, screenshot_path := Some shot\<rparr>, w2)
                | (Inl e, w2) \<Rightarrow>
                    (step_result\<lparr>detail := d, success := True, screenshot_path := path\<rparr>, w2))
             else (step_result\<lparr>detail := d, success := True, screenshot_path := path\<rparr>, w1)
         | (Inl exc, w1) \<Rightarrow>
             (case capture_step_screenshot env w1 (JStr (''FAIL_'' @ py_str py name))
                     output_dir udid of
                (Inr shot, w2) \<Rightarrow>
                  (step_result\<lparr>success := False, error := Some (exn_str exc),
                                screenshot_path := Some shot\<rparr>, w2)
              | (Inl e, w2) \<Rightarrow>
                  (step_result\<lparr>success := False, error := Some (exn_str exc)\<rparr>, w2)))"

text \<open>
  The loop \<open>for i, step in enumerate(steps)\<close>: the result is appended, and the loop
  breaks after a result that is not a success.
\<close>

fun run_steps ::
  "'w callees \<Rightarrow> builtins \<Rightarrow> string \<Rightarrow> string option \<Rightarrow> bool \<Rightarrow> StepResult list \<Rightarrow> nat
     \<Rightarrow> (string \<times> json) list list \<Rightarrow> 'w \<Rightarrow> StepResult list \<times> 'w" where
  "run_steps env py output_dir udid every results i [] w = (results, w)"
| "run_steps env py output_dir udid every results i (step # rest) w =
     (case run_step env py output_dir udid every i step w of
        (step_result, w1) \<Rightarrow>
          if \<not> success step_result then (results @ [step_result], w1)
          else run_steps env py output_dir udid every (results @ [step_result]) (i + 1) rest w1)"

text \<open>
  \<open>run_script\<close>. \<open>get_booted\<close> is called before the loop, outside every \<open>try\<close>: its
  exception leaves \<open>run_script\<close>.
\<close>

definition run_script ::
  "'w callees \<Rightarrow> builtins \<Rightarrow> string \<Rightarrow> (string \<times> json) list list \<Rightarrow> string \<Rightarrow> string option
     \<Rightarrow> bool \<Rightarrow> 'w \<Rightarrow> (exn + ScriptResult) \<times> 'w" where
  "run_script env py name script output_dir udid screenshot_every_step w =
     (case get_booted env w of
        (Inl e, w1) \<Rightarrow> (Inl e, w1)
      | (Inr booted, w1) \<Rightarrow>
          (let effective_udid = (if provided udid then udid else booted) in
           case run_steps env py output_dir effective_udid screenshot_every_step [] 0 script w1 of
             (results, w2) \<Rightarrow> (Inr \<lparr>script_name = name, steps = results\<rparr>, w2)))"

section \<open>Protocol client (mcp_client.py)\<close>

text \<open>
  What \<open>_call\<close> raises: \<open>RuntimeError("MCP server is not running")\<close> from \<open>_send\<close>,
  \<open>RuntimeError\<close> with the error payload, \<open>TimeoutError\<close> with method, id and timeout,
  and the AttributeError of \<open>msg.get\<close> on a message that is not a dict.
\<close>

datatype call_error =
    NotRunning
  | McpError json
  | Timeout string int rat
  | NoAttribute

text \<open>
  \<open>_read_loop\<close>, on the lines received: a line is stripped, an empty one is skipped,
  one that \<open>json.loads\<close> rejects is passed over, any other is put on the queue.
\<close>

definition is_space :: "char \<Rightarrow> bool" where
  "is_space c = (let n = (of_char c :: nat) in (9 \<le> n \<and> n \<le> 13) \<or> (28 \<le> n \<and> n \<le> 32))"

definition strip :: "string \<Rightarrow> string" where
  "strip s = rev (dropWhile is_space (rev (dropWhile is_space s)))"

fun read_loop :: "builtins \<Rightarrow> json list \<Rightarrow> string list \<Rightarrow> json list" where
  "read_loop py q [] = q"
| "read_loop py q (line # rest) =
     (if strip line = [] then read_loop py q rest
      else (case json_loads py (strip line) of
              Some msg \<Rightarrow> read_loop py (q @ [msg]) rest
            | None \<Rightarrow> read_loop py q rest))"

text \<open>\<open>msg.get("id") == req_id\<close> for an integer \<open>req_id\<close> (in Python \<open>True == 1\<close>).\<close>

fun id_equals :: "json \<Rightarrow> int \<Rightarrow> bool" where
  "id_equals (JNum r) n = (r = of_int n)"
| "id_equals (JBool b) n = (n = (if b then 1 else 0))"
| "id_equals v n = False"

text \<open>
  One turn of the waiting loop of \<open>_call\<close>, given what \<open>queue.get\<close> gave (\<open>None\<close>:
  \<open>queue.Empty\<close>): go on with the new list \<open>pending\<close>, or leave with an outcome and
  the messages to put back on the queue. The AttributeError puts nothing back.
\<close>

datatype iteration =
    Continue "json list"
  | Leave "call_error + json" "json list"

fun call_iteration :: "int \<Rightarrow> json list \<Rightarrow> json option \<Rightarrow> iteration" where
  "call_iteration req_id pending None = Continue pending"
| "call_iteration req_id pending (Some (JObj msg)) =
     (if id_equals (dict_get msg ''id'') req_id then
        Leave (if has_key msg ''error'' then Inl (McpError (dict_get msg ''error''))
               else Inr (dict_get_default msg ''result'' (JObj [])))
              pending
      else Continue (pending @ [JObj msg]))"
| "call_iteration req_id pending (Some v) = Leave (Inl NoAttribute) []"

text \<open>
  The loop, on the results of the successive \<open>queue.get\<close> calls made before the
  deadline; when they are used up the deadline has passed.
\<close>

fun wait_loop ::
  "string \<Rightarrow> int \<Rightarrow> rat \<Rightarrow> json list \<Rightarrow> json option list \<Rightarrow> (call_error + json) \<times> json list" where
  "wait_loop method req_id timeout pending [] = (Inl (Timeout method req_id timeout), pending)"
| "wait_loop method req_id timeout pending (g # gets) =
     (case call_iteration req_id pending g of
        Continue pending' \<Rightarrow> wait_loop method req_id timeout pending' gets
      | Leave outcome putback \<Rightarrow> (outcome, putback))"




subsection \<open>Calls that wait at the same time\<close>











section \<open>The engine and the client as the specification words them\<close>

text \<open>
  A callee outcome with a text, and the assumption that every exception of the callees
  has a non-empty text (as every \<open>raise\<close> of the repository has).
\<close>

definition speaks :: "(exn + 'a) \<times> 'w \<Rightarrow> bool" where
  "speaks r = (case fst r of Inl e \<Rightarrow> exn_str e \<noteq> [] | Inr v \<Rightarrow> True)"





text \<open>
  The outcome of a call as the specification states it, from the messages dequeued in
  time: Timeout when none bears the id, else RemoteError or the result of the first
  that does.
\<close>

fun is_obj :: "json \<Rightarrow> bool" where
  "is_obj (JObj kv) = True"
| "is_obj v = False"

fun bears_id :: "int \<Rightarrow> json \<Rightarrow> bool" where
  "bears_id n (JObj kv) = id_equals (dict_get kv ''id'') n"
| "bears_id n v = False"

fun has_error :: "json \<Rightarrow> bool" where
  "has_error (JObj kv) = has_key kv ''error''"
| "has_error v = False"

fun error_details :: "json \<Rightarrow> json" where
  "error_details (JObj kv) = dict_get kv ''error''"
| "error_details v = JNull"

fun result_payload :: "json \<Rightarrow> json" where
  "result_payload (JObj kv) = dict_get_default kv ''result'' (JObj [])"
| "result_payload v = JNull"

definition dequeued :: "json option list \<Rightarrow> json list" where
  "dequeued gets = concat (map (\<lambda>g. case g of None \<Rightarrow> [] | Some m \<Rightarrow> [m]) gets)"

definition stated_outcome :: "string \<Rightarrow> int \<Rightarrow> rat \<Rightarrow> json list \<Rightarrow> call_error + json" where
  "stated_outcome method req_id timeout msgs =
     (case List.find (bears_id req_id) msgs of
        None \<Rightarrow> Inl (Timeout method req_id timeout)
      | Some m \<Rightarrow>
          if has_error m then Inl (McpError (error_details m)) else Inr (result_payload m))"









section \<open>Inputs to evaluate on\<close>









text \<open>Responses, a client, and a decoder of three lines.\<close>

definition ok_response :: "int \<Rightarrow> json" where
  "ok_response n = JObj [(''jsonrpc'', JStr ''2.0''), (''id'', JNum (of_int n)),
                        (''result'', JObj [(''tools'', JArr [])])]"



definition toy_loads :: "string \<Rightarrow> json option" where
  "toy_loads s = (if s = ''{}'' then Some (JObj []) else if s = ''5'' then Some (JNum 5) else None)"

definition toy_builtins :: builtins where
  "toy_builtins = no_builtins\<lparr>json_loads := toy_loads\<rparr>"



section \<open>Properties of the element lookup\<close>







text \<open>
  C9. With no criterion given, the lookup returns the first element of a non-empty
  list, whatever \<open>fuzzy\<close> is and whatever the elements hold.
\<close>

theorem find_in_no_criteria:
  "els \<noteq> [] \<Longrightarrow> find_in None None None fuzzy els = Inr (Some (hd els))"
  by (cases els) (simp_all add: label_test_def identifier_test_def type_test_def)

theorem find_in_no_criteria_witness:
  "[ok_button, ok_button\<lparr>label := JStr ''Cancel''\<rparr>] \<noteq> []
   \<and> find_in None None None False [ok_button, ok_button\<lparr>label := JStr ''Cancel''\<rparr>] = Inr (Some ok_button)"
  using find_in_no_criteria [of "[ok_button, ok_button\<lparr>label := JStr ''Cancel''\<rparr>]" False]
  by simp

section \<open>Properties of the tree walk\<close>

text \<open>The two searches of a dict's items are lookups.\<close>

lemma nodes_under_lookup:
  "nodes_under key kv = (case map_of kv key of None \<Rightarrow> [] | Some v \<Rightarrow> nodes v)"
  by (induction kv) auto

lemma parse_child_lookup:
  "parse_child py key kv els =
     (case map_of kv key of None \<Rightarrow> Inr els | Some v \<Rightarrow> parse_elements py v els)"
  by (induction kv) auto














lemma speaksD: "speaks r \<Longrightarrow> r = (Inl e, w) \<Longrightarrow> exn_str e \<noteq> []"
  by (auto simp: speaks_def)








section \<open>Properties of the script engine\<close>


















lemma run_step_return:
  assumes "perform env py output_dir udid (step_action step) (step_label py i step) step w
             = (Inr dp, w1)"
  shows "success (fst (run_step env py output_dir udid every i step w))"
  using assms
  by (cases dp) (auto simp: run_step_def Let_def split: prod.splits sum.splits)

lemma run_steps_results:
  "run_steps env py output_dir udid every results i script w =
     (results @ fst (run_steps env py output_dir udid every [] i script w),
      snd (run_steps env py output_dir udid every [] i script w))"
proof (induction script arbitrary: results i w)
  case Nil
  show ?case by simp
next
  case (Cons step rest)
  obtain r w1 where r: "run_step env py output_dir udid every i step w = (r, w1)"
    by (cases "run_step env py output_dir udid every i step w")
  show ?case
  proof (cases "success r")
    case False
    with r show ?thesis by simp
  next
    case True
    with r show ?thesis
      using Cons.IH[of "results @ [r]" "i + 1" w1] Cons.IH[of "[r]" "i + 1" w1] by simp
  qed
qed

lemma run_steps_bounded:
  "length (fst (run_steps env py output_dir udid every [] i script w)) \<le> length script
   \<and> list_all success (butlast (fst (run_steps env py output_dir udid every [] i script w)))"
proof (induction script arbitrary: i w)
  case Nil
  show ?case by simp
next
  case (Cons step rest)
  obtain r w1 where r: "run_step env py output_dir udid every i step w = (r, w1)"
    by (cases "run_step env py output_dir udid every i step w")
  show ?case
  proof (cases "success r")
    case False
    with r show ?thesis by simp
  next
    case True
    have "run_steps env py output_dir udid every [] i (step # rest) w =
            (r # fst (run_steps env py output_dir udid every [] (i + 1) rest w1),
             snd (run_steps env py output_dir udid every [] (i + 1) rest w1))"
      using r True run_steps_results[of env py output_dir udid every "[r]" "i + 1" rest w1]
      by simp
    with Cons.IH[of "i + 1" w1] True show ?thesis by simp
  qed
qed



lemma run_script_booted:
  "get_booted env w = (Inr booted, w0) \<Longrightarrow>
   run_script env py name script output_dir udid every w =
     (Inr \<lparr>script_name = name,
           steps = fst (run_steps env py output_dir (if provided udid then udid else booted)
                          every [] 0 script w0)\<rparr>,
      snd (run_steps env py output_dir (if provided udid then udid else booted)
             every [] 0 script w0))"
  by (simp add: run_script_def Let_def case_prod_unfold split del: if_split)

text \<open>
  C3. Every run of \<open>run_script\<close> either raises what \<open>get_booted\<close> raised, before any
  step, or returns a result with at most as many entries as the step list, in which
  every entry but the last is a success: nothing follows a failed entry.
\<close>

theorem run_script_entries:
  "(case fst (run_script env py name script output_dir udid every w) of
      Inl e \<Rightarrow> fst (get_booted env w) = Inl e
    | Inr r \<Rightarrow> length (steps r) \<le> length script \<and> list_all success (butlast (steps r)))"
proof (cases "get_booted env w")
  case (Pair b w0)
  show ?thesis
  proof (cases b)
    case (Inl e)
    with Pair show ?thesis by (simp add: run_script_def)
  next
    case (Inr booted)
    with Pair show ?thesis
      using run_steps_bounded[of env py output_dir "if provided udid then udid else booted" every 0 script w0]
      by (simp add: run_script_booted split del: if_split)
  qed
qed








section \<open>Properties of the protocol client\<close>



lemma dequeued_simps:
  "dequeued [] = []"
  "dequeued (None # gets) = dequeued gets"
  "dequeued (Some m # gets) = m # dequeued gets"
  by (simp_all add: dequeued_def)

lemma wait_loop_objects:
  "list_all is_obj (dequeued gets) \<Longrightarrow>
   fst (wait_loop method req_id timeout pending gets) =
     stated_outcome method req_id timeout (dequeued gets)"
proof (induction gets arbitrary: pending)
  case Nil
  show ?case by (simp add: dequeued_simps stated_outcome_def)
next
  case (Cons g gets)
  show ?case
  proof (cases g)
    case None
    with Cons show ?thesis by (simp add: dequeued_simps stated_outcome_def)
  next
    case (Some m)
    with Cons.prems obtain kv where m: "m = JObj kv"
      by (cases m) (auto simp: dequeued_simps)
    from Cons.prems Some have rest: "list_all is_obj (dequeued gets)"
      by (simp add: dequeued_simps)
    show ?thesis
      using Cons.IH[OF rest] by (simp add: Some m dequeued_simps stated_outcome_def)
  qed
qed

lemma wait_loop_no_attribute_error:
  "list_all is_obj (dequeued gets) \<Longrightarrow>
   fst (wait_loop method req_id timeout pending gets) \<noteq> Inl NoAttribute"
  by (simp add: wait_loop_objects stated_outcome_def split: option.splits)





text \<open>
  C10. A line that decodes to a value that is not a JSON object is put on the queue,
  and the call that dequeues it raises AttributeError: it neither returns nor raises
  Timeout or RemoteError, and puts nothing back.
\<close>

theorem non_object_message:
  "strip line \<noteq> [] \<Longrightarrow> json_loads py (strip line) = Some v \<Longrightarrow> \<not> is_obj v \<Longrightarrow>
   read_loop py q [line] = q @ [v]
   \<and> call_iteration req_id pending (Some v) = Leave (Inl NoAttribute) []
   \<and> wait_loop method req_id timeout pending (Some v # gets) = (Inl NoAttribute, [])"
  by (cases v) simp_all

theorem non_object_message_witness:
  "strip '' 5 '' \<noteq> [] \<and> json_loads toy_builtins (strip '' 5 '') = Some (JNum 5) \<and> \<not> is_obj (JNum 5)
   \<and> read_loop toy_builtins [] ['' 5 ''] = [JNum 5]
   \<and> wait_loop ''tools/list'' 2 15 [ok_response 1] (Some (JNum 5) # [Some (ok_response 2)])
       = (Inl NoAttribute, [])"
  using non_object_message [of "'' 5 ''" toy_builtins "JNum 5" "[]" 2 "[ok_response 1]" "''tools/list''" 15 "[Some (ok_response 2)]"]
  by (simp add: toy_builtins_def no_builtins_def toy_loads_def strip_def is_space_def)

subsection \<open>Calls that wait at the same time\<close>






















end
